theory Spec2Isabelle
  imports Complex_Main "HOL-Library.Word"
begin

unbundle bit_operations_syntax

section \<open>Data model\<close>

text \<open>
  RawAudioBytes is a sequence of 8-bit bytes (a JavaScript \<open>Uint8Array\<close>), a PcmSample
  is a signed 16-bit integer (an element of an \<open>Int16Array\<close>), read through \<open>sint\<close>,
  and a PcmBuffer is a sequence of samples.  JavaScript strings are sequences of
  UTF-16 code units.
\<close>

type_synonym byte = "8 word"
type_synonym PcmSample = "16 word"
type_synonym RawAudioBytes = "byte list"
type_synonym PcmBuffer = "PcmSample list"
type_synonym WavContainer = "byte list"
type_synonym jsstring = "16 word list"

text \<open>
  Every exception of the program is a value.  \<open>ServiceError\<close> is a rejection of the
  remote call (with its message); \<open>JsTypeError\<close>, \<open>JsSyntaxError\<close>, \<open>JsRangeError\<close>
  and \<open>JsNotSupportedError\<close> are the platform's own exceptions;
  \<open>MalformedAudioError\<close> and \<open>InvalidAudioParametersError\<close> are the codec's errors
  of the specification; the three \<open>...Failed\<close> errors and
  \<open>NoAudioContent\<close> are the \<open>new Error(...)\<close> values that
  \<open>geminiService.ts\<close> throws, one constructor for each fixed message:
  \<^item> \<open>NoAudioContent\<close>: "Nije primljen audio sadrzaj od API-ja."
  \<^item> \<open>SpeechFailed\<close>: "Generisanje glasa nije uspelo. Proverite konzolu za detalje."
  \<^item> \<open>TranslationFailed\<close>: "Prevodjenje nije uspelo. Proverite konzolu za detalje."
  \<^item> \<open>TranscriptionFailed\<close>: "Transkripcija nije uspela. Proverite konzolu za detalje."
\<close>

datatype error =
    ServiceError jsstring
  | JsTypeError
  | JsSyntaxError
  | JsRangeError
  | NoAudioContent
  | SpeechFailed
  | TranslationFailed
  | TranscriptionFailed
  | JsNotSupportedError
  | MalformedAudioError
  | InvalidAudioParametersError

section \<open>Little-endian 16-bit framing\<close>

text \<open>One sample from its least-significant and its most-significant byte.\<close>

definition int16_of_bytes :: "byte \<Rightarrow> byte \<Rightarrow> PcmSample" where
  "int16_of_bytes lo hi = push_bit 8 (ucast hi) OR ucast lo"

text \<open>The two bytes of a sample, least-significant first.\<close>

definition bytes_of_int16 :: "PcmSample \<Rightarrow> byte list" where
  "bytes_of_int16 s = [ucast s, ucast (drop_bit 8 s)]"

text \<open>
  Modelled from the spec: \<open>convertUint8ArrayToInt16Array\<close> of \<open>utils/audioUtils\<close>,
  a module whose source is missing; only the call in \<open>handleGenerateAudio\<close> is
  present.  Section 4.2 of the specification: the input length must be even, sample
  \<open>i\<close> combines byte \<open>2i\<close> (least-significant) and byte \<open>2i+1\<close>
  (most-significant), and an odd length fails with \<open>MalformedAudioError\<close>.
\<close>

definition convertUint8ArrayToInt16Array :: "RawAudioBytes \<Rightarrow> error + PcmBuffer" where
  "convertUint8ArrayToInt16Array bs =
     (if odd (length bs) then Inl MalformedAudioError
      else Inr (map (\<lambda>i. int16_of_bytes (bs ! (2 * i)) (bs ! (2 * i + 1)))
                    [0 ..< length bs div 2]))"

text \<open>The two's-complement reading of an unsigned 16-bit value.\<close>

definition twos_complement16 :: "int \<Rightarrow> int" where
  "twos_complement16 u = (if u \<ge> 32768 then u - 65536 else u)"


section \<open>WAV encoder\<close>

text \<open>Unsigned fields of the header, least-significant byte first.\<close>

definition uint16_le :: "16 word \<Rightarrow> byte list" where
  "uint16_le w = [ucast w, ucast (drop_bit 8 w)]"

definition uint32_le :: "32 word \<Rightarrow> byte list" where
  "uint32_le w = [ucast w, ucast (drop_bit 8 w), ucast (drop_bit 16 w), ucast (drop_bit 24 w)]"

text \<open>The four-character tags \<open>RIFF\<close>, \<open>WAVE\<close>, \<open>fmt \<close> and \<open>data\<close> in ASCII.\<close>

definition tag_RIFF :: "byte list" where "tag_RIFF = [0x52, 0x49, 0x46, 0x46]"
definition tag_WAVE :: "byte list" where "tag_WAVE = [0x57, 0x41, 0x56, 0x45]"
definition tag_fmt :: "byte list" where "tag_fmt = [0x66, 0x6D, 0x74, 0x20]"
definition tag_data :: "byte list" where "tag_data = [0x64, 0x61, 0x74, 0x61]"

text \<open>
  Modelled from the spec: the 44-byte header that \<open>pcmToWavBlob\<close> of
  \<open>utils/audioUtils\<close> writes; the source of that module is missing.  Section 4.3 of the specification: RIFF chunk size \<open>36 + data size\<close>; in the
  \<open>fmt\<close> sub-chunk (of size 16) audio format 1, the channel count, the sample rate,
  byte rate \<open>sampleRate * channelCount * 2\<close>, block align \<open>channelCount * 2\<close> and
  16 bits per sample; data size \<open>sampleCount * channelCount * 2\<close>; every field
  little-endian.  The fields have the widths of the canonical header, and a value that
  does not fit its field is reduced modulo the field's range.
\<close>

definition wavHeader :: "nat \<Rightarrow> int \<Rightarrow> int \<Rightarrow> byte list" where
  "wavHeader sampleCount sampleRate channelCount =
     (let dataSize = int sampleCount * channelCount * 2 in
        tag_RIFF @ uint32_le (word_of_int (36 + dataSize)) @ tag_WAVE
      @ tag_fmt @ uint32_le 16
      @ uint16_le 1
      @ uint16_le (word_of_int channelCount)
      @ uint32_le (word_of_int sampleRate)
      @ uint32_le (word_of_int (sampleRate * channelCount * 2))
      @ uint16_le (word_of_int (channelCount * 2))
      @ uint16_le 16
      @ tag_data @ uint32_le (word_of_int dataSize))"

text \<open>
  Modelled from the spec: \<open>pcmToWavBlob\<close> of \<open>utils/audioUtils\<close> (the specification's
  \<open>encodeWav\<close>), called by \<open>handleGenerateAudio\<close> as
  \<open>pcmToWavBlob(pcmDataInt16, 24000, 1)\<close>; the source of the module is missing.
  Sections 3 and 4.3 of the specification: the container is the header followed
  by the little-endian encoding of the samples, and a non-positive sample rate or
  channel count fails with \<open>InvalidAudioParametersError\<close>.
\<close>

definition pcmToWavBlob :: "PcmBuffer \<Rightarrow> int \<Rightarrow> int \<Rightarrow> error + WavContainer" where
  "pcmToWavBlob pcmData sampleRate channelCount =
     (if sampleRate \<le> 0 \<or> channelCount \<le> 0 then Inl InvalidAudioParametersError
      else Inr (wavHeader (length pcmData) sampleRate channelCount
                @ concat (map bytes_of_int16 pcmData)))"

section \<open>Playback: \<open>handlePlayAudio\<close>\<close>

text \<open>
  The view \<open>new Int16Array(buffer)\<close> over a byte buffer: element \<open>i\<close> is made of
  bytes \<open>2i\<close> and \<open>2i+1\<close> in the byte order of the platform, little-endian on every
  platform a browser runs on.  The constructor throws a \<open>RangeError\<close> when the
  length of the buffer is not a multiple of two.
\<close>

fun int16_view :: "byte list \<Rightarrow> PcmSample list" where
  "int16_view (lo # hi # rest) = int16_of_bytes lo hi # int16_view rest"
| "int16_view _ = []"

definition new_Int16Array :: "byte list \<Rightarrow> error + PcmBuffer" where
  "new_Int16Array buffer =
     (if odd (length buffer) then Inl JsRangeError else Inr (int16_view buffer))"

text \<open>
  The decoding steps of \<open>handlePlayAudio\<close>, in the order of the source:
  \<open>arrayBuffer.slice(44)\<close> skips the header (a shorter buffer gives the empty one);
  \<open>createBuffer(1, pcmData.byteLength / 2, 24000)\<close> takes the whole part of the frame
  count and rejects a count of zero with a \<open>NotSupportedError\<close>; then
  \<open>new Int16Array(pcmData)\<close> reads the samples.
\<close>

definition decodeWav :: "byte list \<Rightarrow> error + PcmBuffer" where
  "decodeWav arrayBuffer =
     (let pcmData = drop 44 arrayBuffer in
      if length pcmData div 2 = 0 then Inl JsNotSupportedError
      else new_Int16Array pcmData)"

text \<open>
  The loop body \<open>channelData[i] = pcmInt16[i] / 32768.0\<close>.  The quotient of a 16-bit
  integer by \<open>2 ^ 15\<close> is a binary fraction that the 32-bit floats of the channel data
  hold exactly, so the real quotient is the stored value.
\<close>

definition normalizeSample :: "PcmSample \<Rightarrow> real" where
  "normalizeSample s = real_of_int (sint s) / 32768"

text \<open>
  \<open>handlePlayAudio\<close>: nothing happens without audio or without an audio context
  (\<open>None\<close>); otherwise the samples are decoded and the channel data handed to the
  audio context is their normalization.
\<close>

definition handlePlayAudio :: "byte list option \<Rightarrow> bool \<Rightarrow> (error + real list) option" where
  "handlePlayAudio audioInfo audioContext =
     (case audioInfo of
        None \<Rightarrow> None
      | Some arrayBuffer \<Rightarrow>
          if \<not> audioContext then None
          else Some
            (case decodeWav arrayBuffer of
               Inl e \<Rightarrow> Inl e
             | Inr pcmInt16 \<Rightarrow> Inr (map normalizeSample pcmInt16)))"

section \<open>The remote service\<close>

text \<open>Interfaces \<open>Language\<close> and \<open>Translation\<close> of \<open>types.ts\<close>.\<close>

record Language =
  code :: jsstring
  name :: jsstring
  englishName :: jsstring

text \<open>
  A parsed JSON value.  An object is the list of its own properties.  A property read
  yields a JSON value or \<open>undefined\<close>, which is \<open>None\<close>.
\<close>

datatype json =
    JNull
  | JBool bool
  | JNum rat
  | JStr jsstring
  | JArr "json list"
  | JObj "(jsstring \<times> json) list"

text \<open>
  \<open>Translation\<close> declares three strings, but \<open>translateText\<close> fills them from
  values of type \<open>any\<close>, so at run time a field holds whatever was read.
\<close>

record Translation =
  languageCode :: "json option"
  languageName :: "json option"
  translation_text :: "json option"

text \<open>
  The part of a response of \<open>ai.models.generateContent\<close> that the program reads:
  the getter \<open>text\<close> and the path
  \<open>candidates[0].content.parts[0].inlineData.data\<close>, every step of which may be
  \<open>undefined\<close>.
\<close>

record InlineData =
  data :: "jsstring option"

record Part =
  inlineData :: "InlineData option"

record Content =
  parts :: "Part list option"

record Candidate =
  content :: "Content option"

record Response =
  response_text :: "jsstring option"
  candidates :: "Candidate list option"

text \<open>
  The three requests the program sends.  The model name, the fixed prompt and the
  configuration of each are constants of the program; what varies is kept: the audio
  and its MIME type, the language list and the text to translate, the text to speak.
\<close>

datatype request =
    TranscribeRequest jsstring jsstring
  | TranslateRequest jsstring jsstring
  | SpeechRequest jsstring

text \<open>
  The remote service is opaque: \<open>ai req n\<close> is the outcome of sending \<open>req\<close> as the
  \<open>n\<close>-th call, a rejection or a response.  The world records how many calls were made
  and what \<open>console.error\<close> printed.
\<close>

type_synonym service = "request \<Rightarrow> nat \<Rightarrow> error + Response"

record world =
  calls :: nat
  console :: "error list"

definition generateContent :: "service \<Rightarrow> request \<Rightarrow> world \<Rightarrow> (error + Response) \<times> world" where
  "generateContent ai req w = (ai req (calls w), w\<lparr>calls := Suc (calls w)\<rparr>)"

definition console_error :: "error \<Rightarrow> world \<Rightarrow> world" where
  "console_error e w = w\<lparr>console := console w @ [e]\<rparr>"

text \<open>An ASCII literal as a JavaScript string.\<close>

definition js :: "string \<Rightarrow> jsstring" where
  "js s = map (\<lambda>c. of_nat (of_char c)) s"

subsection \<open>\<open>transcribeAudio\<close>\<close>

text \<open>
  White space and line terminators of ECMAScript, the code units that
  \<open>String.prototype.trim\<close> removes: TAB, LF, VT, FF, CR, SPACE, NBSP, U+1680,
  U+2000 to U+200A, U+2028, U+2029, U+202F, U+205F, U+3000 and U+FEFF.
\<close>

definition isWhiteSpace :: "16 word \<Rightarrow> bool" where
  "isWhiteSpace c =
     (c \<in> set [0x9, 0xA, 0xB, 0xC, 0xD, 0x20, 0xA0, 0x1680, 0x2028, 0x2029, 0x202F,
               0x205F, 0x3000, 0xFEFF]
      \<or> (0x2000 \<le> c \<and> c \<le> 0x200A))"

definition trim :: "jsstring \<Rightarrow> jsstring" where
  "trim s = rev (dropWhile isWhiteSpace (rev (dropWhile isWhiteSpace s)))"

text \<open>
  \<open>response.text.trim()\<close> throws a \<open>TypeError\<close> when \<open>response.text\<close> is
  \<open>undefined\<close>.  The \<open>catch\<close> block prints whatever was thrown and throws the fixed
  error of the function.
\<close>

definition transcribeAudio ::
  "service \<Rightarrow> jsstring \<Rightarrow> jsstring \<Rightarrow> world \<Rightarrow> (error + jsstring) \<times> world" where
  "transcribeAudio ai audioBase64 mimeType w =
     (case generateContent ai (TranscribeRequest audioBase64 mimeType) w of
        (r, w1) \<Rightarrow>
          (case (case r of
                   Inl e \<Rightarrow> Inl e
                 | Inr response \<Rightarrow>
                     (case response_text response of
                        None \<Rightarrow> Inl JsTypeError
                      | Some t \<Rightarrow> Inr (trim t))) of
             Inl e \<Rightarrow> (Inl TranscriptionFailed, console_error e w1)
           | Inr result \<Rightarrow> (Inr result, w1)))"

subsection \<open>\<open>translateText\<close>\<close>

text \<open>\<open>Array.prototype.join\<close> on strings.\<close>

fun join :: "jsstring \<Rightarrow> jsstring list \<Rightarrow> jsstring" where
  "join sep [] = []"
| "join sep [x] = x"
| "join sep (x # y # ys) = x @ sep @ join sep (y # ys)"

text \<open>
  \<open>item.languageCode\<close> and \<open>item.translatedText\<close>: reading a property of \<open>null\<close>
  throws a \<open>TypeError\<close>; an object gives the value of the property or \<open>undefined\<close>;
  booleans, numbers, strings and arrays have no property of either name.
\<close>

fun get_property :: "json \<Rightarrow> jsstring \<Rightarrow> error + json option" where
  "get_property JNull k = Inl JsTypeError"
| "get_property (JObj kvs) k = Inr (map_of kvs k)"
| "get_property v k = Inr None"

text \<open>\<open>l.code === item.languageCode\<close>: true only of a string with the same code units.\<close>

fun strict_equals :: "jsstring \<Rightarrow> json option \<Rightarrow> bool" where
  "strict_equals s (Some (JStr t)) = (s = t)"
| "strict_equals s v = False"

text \<open>The callback of \<open>parsedResponse.map\<close>.\<close>

definition translation_of :: "Language list \<Rightarrow> json \<Rightarrow> error + Translation" where
  "translation_of targetLanguages item =
     (case get_property item (js ''languageCode'') of
        Inl e \<Rightarrow> Inl e
      | Inr lc \<Rightarrow>
          (case get_property item (js ''translatedText'') of
             Inl e \<Rightarrow> Inl e
           | Inr tt \<Rightarrow>
               (let lang = find (\<lambda>l. strict_equals (code l) lc) targetLanguages in
                Inr \<lparr> languageCode = lc,
                      languageName = (case lang of Some l \<Rightarrow> Some (JStr (name l)) | None \<Rightarrow> lc),
                      translation_text = tt \<rparr>)))"

text \<open>\<open>Array.prototype.map\<close> with a callback that may throw: the first throw ends it.\<close>

fun map_throwing :: "('a \<Rightarrow> error + 'b) \<Rightarrow> 'a list \<Rightarrow> error + 'b list" where
  "map_throwing f [] = Inr []"
| "map_throwing f (x # xs) =
     (case f x of
        Inl e \<Rightarrow> Inl e
      | Inr y \<Rightarrow> (case map_throwing f xs of Inl e \<Rightarrow> Inl e | Inr ys \<Rightarrow> Inr (y # ys)))"

text \<open>
  \<open>JSON.parse(response.text)\<close>: the parser of the platform is a parameter, a function
  from the text to a syntax error or a value; \<open>undefined\<close> is no JSON text.
\<close>

definition JSON_parse :: "(jsstring \<Rightarrow> error + json) \<Rightarrow> jsstring option \<Rightarrow> error + json" where
  "JSON_parse parse t = (case t of None \<Rightarrow> Inl JsSyntaxError | Some s \<Rightarrow> parse s)"

text \<open>
  \<open>translateText\<close>.  The language list of the prompt is the items
  \<open>englishName (code)\<close> joined by a comma and a space.  Only an array has a \<open>map\<close>
  method: on any other parsed value \<open>parsedResponse.map(...)\<close> throws a
  \<open>TypeError\<close>.
\<close>

definition languageList_of :: "Language list \<Rightarrow> jsstring" where
  "languageList_of targetLanguages =
     join (js '', '')
       (map (\<lambda>lang. englishName lang @ js '' ('' @ code lang @ js '')'') targetLanguages)"

definition translateText ::
  "(jsstring \<Rightarrow> error + json) \<Rightarrow> service \<Rightarrow> jsstring \<Rightarrow> Language list \<Rightarrow> world
     \<Rightarrow> (error + Translation list) \<times> world" where
  "translateText parse ai text targetLanguages w =
     (let languageList = languageList_of targetLanguages
      in case generateContent ai (TranslateRequest languageList text) w of
        (r, w1) \<Rightarrow>
          (case (case r of
                   Inl e \<Rightarrow> Inl e
                 | Inr response \<Rightarrow>
                     (case JSON_parse parse (response_text response) of
                        Inl e \<Rightarrow> Inl e
                      | Inr parsedResponse \<Rightarrow>
                          (case parsedResponse of
                             JArr items \<Rightarrow> map_throwing (translation_of targetLanguages) items
                           | _ \<Rightarrow> Inl JsTypeError))) of
             Inl e \<Rightarrow> (Inl TranslationFailed, console_error e w1)
           | Inr result \<Rightarrow> (Inr result, w1)))"

subsection \<open>\<open>generateSpeech\<close>\<close>

text \<open>
  \<open>response.candidates?.[0]?.content?.parts?.[0]?.inlineData?.data\<close>: the chain
  stops with \<open>undefined\<close> at the first step that is missing.
\<close>

definition base64Audio_of :: "Response \<Rightarrow> jsstring option" where
  "base64Audio_of response =
     (case candidates response of
        None \<Rightarrow> None
      | Some cs \<Rightarrow>
          (case cs of
             [] \<Rightarrow> None
           | c # _ \<Rightarrow>
               (case content c of
                  None \<Rightarrow> None
                | Some ct \<Rightarrow>
                    (case parts ct of
                       None \<Rightarrow> None
                     | Some ps \<Rightarrow>
                         (case ps of
                            [] \<Rightarrow> None
                          | p # _ \<Rightarrow>
                              (case inlineData p of
                                 None \<Rightarrow> None
                               | Some d \<Rightarrow> data d))))))"

text \<open>
  \<open>generateSpeech\<close>.  \<open>!base64Audio\<close> holds of \<open>undefined\<close> and of the empty string.
  The \<open>catch\<close> block receives a rejection of the call as well as the error thrown
  for missing audio, prints it, and throws the fixed error of the function.
\<close>

definition generateSpeech :: "service \<Rightarrow> jsstring \<Rightarrow> world \<Rightarrow> (error + jsstring) \<times> world" where
  "generateSpeech ai text w =
     (case generateContent ai (SpeechRequest text) w of
        (r, w1) \<Rightarrow>
          (case (case r of
                   Inl e \<Rightarrow> Inl e
                 | Inr response \<Rightarrow>
                     (case base64Audio_of response of
                        None \<Rightarrow> Inl NoAudioContent
                      | Some base64Audio \<Rightarrow>
                          if base64Audio = [] then Inl NoAudioContent else Inr base64Audio)) of
             Inl e \<Rightarrow> (Inl SpeechFailed, console_error e w1)
           | Inr base64Audio \<Rightarrow> (Inr base64Audio, w1)))"

section \<open>Concrete inputs\<close>

text \<open>A world in which nothing has happened yet.\<close>

definition world0 :: world where
  "world0 = \<lparr> calls = 0, console = [] \<rparr>"

text \<open>A service that rejects every call, one that answers without audio, one with audio.\<close>

definition failing_service :: service where
  "failing_service req n = Inl (ServiceError (js ''503''))"

definition silent_service :: service where
  "silent_service req n = Inr \<lparr> response_text = None, candidates = Some [] \<rparr>"

definition speaking_service :: service where
  "speaking_service req n =
     Inr \<lparr> response_text = None,
           candidates = Some [\<lparr> content = Some \<lparr> parts = Some
             [\<lparr> inlineData = Some \<lparr> data = Some (js ''AQACAA=='') \<rparr> \<rparr>] \<rparr> \<rparr>] \<rparr>"

text \<open>A transcription with a leading space and a trailing line feed.\<close>

definition transcribing_service :: service where
  "transcribing_service req n =
     Inr \<lparr> response_text = Some (js '' Dobar dan.'' @ [0x0A]), candidates = None \<rparr>"

text \<open>
  A translation into the one requested language, English, followed by one into German,
  which was not requested.
\<close>

definition english :: Language where
  "english = \<lparr> code = js ''en'', name = js ''Engleski'', englishName = js ''English'' \<rparr>"

definition items0 :: "json list" where
  "items0 =
     [JObj [(js ''languageCode'', JStr (js ''en'')), (js ''translatedText'', JStr (js ''Hello''))],
      JObj [(js ''languageCode'', JStr (js ''de'')), (js ''translatedText'', JStr (js ''Hallo''))]]"

definition translating_service :: service where
  "translating_service req n = Inr \<lparr> response_text = Some (js ''[en, de]''), candidates = None \<rparr>"

definition parse0 :: "jsstring \<Rightarrow> error + json" where
  "parse0 s = (if s = js ''[en, de]'' then Inr (JArr items0) else Inl JsSyntaxError)"

section \<open>Facts on the 16-bit framing\<close>

lemma int16_or_add:
  "push_bit 8 (ucast (hi :: byte) :: 16 word) OR ucast (lo :: byte)
     = push_bit 8 (ucast hi) + ucast lo"
  by (rule disjunctive_add_eq_or [symmetric], rule bit_word_eqI)
     (auto simp add: bit_simps dest: bit_imp_le_length)

lemma uint_int16_of_bytes:
  "uint (int16_of_bytes lo hi) = uint lo + 256 * uint hi"
proof -
  have lo: "0 \<le> uint lo" "uint lo < 256"
    using uint_lt2p [of lo] by simp_all
  have hi: "0 \<le> uint hi" "uint hi < 256"
    using uint_lt2p [of hi] by simp_all
  have ulo: "uint (ucast lo :: 16 word) = uint lo"
    by (simp add: uint_up_ucast is_up)
  have uhi: "uint (ucast hi :: 16 word) = uint hi"
    by (simp add: uint_up_ucast is_up)
  have "uint (int16_of_bytes lo hi) = (uint hi * 256 + uint lo) mod 65536"
    unfolding int16_of_bytes_def int16_or_add
    by (simp add: uint_word_ariths push_bit_eq_mult ulo uhi mod_simps)
  also have "\<dots> = uint lo + 256 * uint hi"
    using lo hi by simp
  finally show ?thesis .
qed

lemma sint16_twos: "sint (w :: 16 word) = twos_complement16 (uint w)"
proof -
  have b: "0 \<le> uint w" "uint w < 65536"
    using uint_lt2p [of w] by simp_all
  have "sint w = (uint w + 32768) mod 65536 - 32768"
    by (simp add: sint_uint signed_take_bit_eq_take_bit_shift take_bit_eq_mod)
  also have "\<dots> = twos_complement16 (uint w)"
  proof (cases "uint w \<ge> 32768")
    case True
    then have "(uint w + 32768) mod 65536 = uint w - 32768"
      using b by (simp add: mod_pos_geq)
    then show ?thesis
      using True by (simp add: twos_complement16_def)
  next
    case False
    then show ?thesis
      using b by (simp add: twos_complement16_def)
  qed
  finally show ?thesis .
qed

lemma int16_of_bytes_of_int16:
  "int16_of_bytes (ucast s) (ucast (drop_bit 8 s)) = s"
  unfolding int16_of_bytes_def
  by (rule bit_word_eqI) (auto simp add: bit_simps)

lemma int16_view_encoding: "int16_view (concat (map bytes_of_int16 P)) = P"
  by (induction P) (simp_all add: bytes_of_int16_def int16_of_bytes_of_int16)

lemma length_encoding: "length (concat (map bytes_of_int16 P)) = 2 * length P"
  by (induction P) (simp_all add: bytes_of_int16_def)

lemma length_wavHeader: "length (wavHeader n R C) = 44"
  by (simp add: wavHeader_def Let_def uint32_le_def uint16_le_def tag_RIFF_def tag_WAVE_def
      tag_fmt_def tag_data_def)

section \<open>The codec\<close>

text \<open>
  Claim C1, as stated: decoding what the encoder wrote returns the buffer, for every
  buffer.  It does not for the empty one: its container is the bare header, and the
  decoding stops with a \<open>NotSupportedError\<close> where the playback buffer of zero
  frames is requested.
\<close>

theorem wav_roundtrip_empty_fails:
  "pcmToWavBlob [] 24000 1 =
     Inr [0x52, 0x49, 0x46, 0x46, 36, 0, 0, 0, 0x57, 0x41, 0x56, 0x45,
          0x66, 0x6D, 0x74, 0x20, 16, 0, 0, 0, 1, 0, 1, 0,
          0xC0, 0x5D, 0, 0, 0x80, 0xBB, 0, 0, 2, 0, 16, 0,
          0x64, 0x61, 0x74, 0x61, 0, 0, 0, 0]
   \<and> decodeWav [0x52, 0x49, 0x46, 0x46, 36, 0, 0, 0, 0x57, 0x41, 0x56, 0x45,
          0x66, 0x6D, 0x74, 0x20, 16, 0, 0, 0, 1, 0, 1, 0,
          0xC0, 0x5D, 0, 0, 0x80, 0xBB, 0, 0, 2, 0, 16, 0,
          0x64, 0x61, 0x74, 0x61, 0, 0, 0, 0] = Inl JsNotSupportedError
   \<and> Inl JsNotSupportedError \<noteq> (Inr [] :: error + PcmBuffer)"
  by (simp add: pcmToWavBlob_def wavHeader_def Let_def uint32_le_def uint16_le_def
      tag_RIFF_def tag_WAVE_def tag_fmt_def tag_data_def decodeWav_def)

text \<open>
  Claim C1, amended.  For every PcmBuffer \<open>P\<close> that is not empty, every sample rate
  \<open>R > 0\<close> and every channel count \<open>C > 0\<close> the encoder succeeds, and decoding its
  container (skipping the 44-byte header and reading the rest as little-endian 16-bit
  samples, as \<open>handlePlayAudio\<close> does) returns exactly \<open>P\<close>.
\<close>

theorem wav_roundtrip:
  "P \<noteq> [] \<Longrightarrow> 0 < R \<Longrightarrow> 0 < C \<Longrightarrow>
     \<exists>wav. pcmToWavBlob P R C = Inr wav \<and> decodeWav wav = Inr P"
  by (simp add: pcmToWavBlob_def decodeWav_def new_Int16Array_def length_wavHeader
      length_encoding int16_view_encoding)

theorem wav_roundtrip_witness:
  "[1, - 1, 32767, - 32768 :: PcmSample] \<noteq> [] \<and> (0::int) < 24000 \<and> (0::int) < 1 \<and>
   (\<exists>wav. pcmToWavBlob [1, - 1, 32767, - 32768] 24000 1 = Inr wav
      \<and> decodeWav wav = Inr [1, - 1, 32767, - 32768])"
  using wav_roundtrip [of "[1, - 1, 32767, - 32768]" 24000 1] by simp

text \<open>
  Claim C2.  On an input of even length the byte-to-sample converter succeeds, and
  sample \<open>i\<close> is the two's-complement reading of the unsigned 16-bit value with low
  byte \<open>2i\<close> and high byte \<open>2i+1\<close>; the pair \<open>[0xFF, 0xFF]\<close> decodes to \<open>-1\<close> and
  the pair \<open>[0x00, 0x80]\<close> to \<open>-32768\<close>.
\<close>

theorem convert_sample:
  "(even (length bs) \<longrightarrow>
      (\<exists>buf. convertUint8ArrayToInt16Array bs = Inr buf \<and>
         (\<forall>i < length bs div 2.
            sint (buf ! i) =
              twos_complement16 (uint (bs ! (2 * i)) + 256 * uint (bs ! (2 * i + 1))))))
   \<and> map_sum id (map sint) (convertUint8ArrayToInt16Array [0xFF, 0xFF]) = Inr [- 1]
   \<and> map_sum id (map sint) (convertUint8ArrayToInt16Array [0x00, 0x80]) = Inr [- 32768]"
  by (simp add: convertUint8ArrayToInt16Array_def sint16_twos uint_int16_of_bytes
      twos_complement16_def)

theorem convert_sample_witness:
  "even (length [0x34, 0x12, 0x00, 0x80 :: byte]) \<and>
   (\<exists>buf. convertUint8ArrayToInt16Array [0x34, 0x12, 0x00, 0x80] = Inr buf \<and>
      (\<forall>i < length [0x34, 0x12, 0x00, 0x80 :: byte] div 2.
         sint (buf ! i) =
           twos_complement16 (uint ([0x34, 0x12, 0x00, 0x80 :: byte] ! (2 * i))
             + 256 * uint ([0x34, 0x12, 0x00, 0x80 :: byte] ! (2 * i + 1)))))"
  using convert_sample [of "[0x34, 0x12, 0x00, 0x80]"] by simp

text \<open>
  Claim C6.  On an input of odd length the byte-to-sample converter fails with
  \<open>MalformedAudioError\<close>, a result that carries no buffer; on an input of even length
  it succeeds with a buffer of half the length.
\<close>

theorem convert_length:
  "(odd (length bs) \<longrightarrow> convertUint8ArrayToInt16Array bs = Inl MalformedAudioError)
   \<and> (even (length bs) \<longrightarrow>
        (\<exists>buf. convertUint8ArrayToInt16Array bs = Inr buf \<and> length buf = length bs div 2))"
  by (simp add: convertUint8ArrayToInt16Array_def)

theorem convert_length_witness:
  "odd (length [1, 2, 3 :: byte]) \<and>
   convertUint8ArrayToInt16Array [1, 2, 3] = Inl MalformedAudioError \<and>
   even (length [1, 2, 3, 4 :: byte]) \<and>
   (\<exists>buf. convertUint8ArrayToInt16Array [1, 2, 3, 4] = Inr buf
      \<and> length buf = length [1, 2, 3, 4 :: byte] div 2)"
  using convert_length [of "[1, 2, 3]"] convert_length [of "[1, 2, 3, 4]"] by simp

text \<open>
  Claim C7.  An empty PcmBuffer, with any positive sample rate and channel count,
  encodes to a container of exactly 44 bytes whose data-size field (bytes 40 to 43) is
  0; the RIFF size field (bytes 4 to 7) is then \<open>36 + 0\<close>.
\<close>

theorem empty_wav:
  "0 < R \<Longrightarrow> 0 < C \<Longrightarrow>
   \<exists>wav. pcmToWavBlob [] R C = Inr wav \<and> length wav = 44
     \<and> take 4 (drop 40 wav) = uint32_le 0 \<and> uint32_le 0 = [0, 0, 0, 0]
     \<and> take 4 (drop 4 wav) = uint32_le 36 \<and> uint32_le 36 = [36, 0, 0, 0]"
  by (simp add: pcmToWavBlob_def wavHeader_def Let_def uint32_le_def uint16_le_def
      tag_RIFF_def tag_WAVE_def tag_fmt_def tag_data_def)

theorem empty_wav_witness:
  "(0::int) < 24000 \<and> (0::int) < 1 \<and>
   (\<exists>wav. pcmToWavBlob [] 24000 1 = Inr wav \<and> length wav = 44
     \<and> take 4 (drop 40 wav) = uint32_le 0 \<and> uint32_le 0 = [0, 0, 0, 0]
     \<and> take 4 (drop 4 wav) = uint32_le 36 \<and> uint32_le 36 = [36, 0, 0, 0])"
  using empty_wav [of 24000 1] by simp

text \<open>
  The end-to-end scenario of the specification: the buffer \<open>[1, 2]\<close> at 24000 Hz and
  one channel gives 48 bytes, the header followed by \<open>[0x01, 0x00, 0x02, 0x00]\<close>.
\<close>

lemma pcmToWavBlob_scenario:
  "pcmToWavBlob [1, 2] 24000 1 =
     Inr [0x52, 0x49, 0x46, 0x46, 40, 0, 0, 0, 0x57, 0x41, 0x56, 0x45,
          0x66, 0x6D, 0x74, 0x20, 16, 0, 0, 0, 1, 0, 1, 0,
          0xC0, 0x5D, 0, 0, 0x80, 0xBB, 0, 0, 2, 0, 16, 0,
          0x64, 0x61, 0x74, 0x61, 4, 0, 0, 0, 1, 0, 2, 0]"
  by (simp add: pcmToWavBlob_def wavHeader_def Let_def uint32_le_def uint16_le_def
      tag_RIFF_def tag_WAVE_def tag_fmt_def tag_data_def bytes_of_int16_def)

section \<open>Playback normalization\<close>

lemma sint_word_of_int16:
  "- 32768 \<le> k \<Longrightarrow> k \<le> 32767 \<Longrightarrow> sint (word_of_int k :: 16 word) = k"
  by (simp add: signed_of_int signed_take_bit_int_eq_self)

lemma normalizeSample_bounds: "- 1 \<le> normalizeSample s \<and> normalizeSample s < 1"
proof -
  have "- 32768 \<le> sint s" and "sint s < 32768"
    using sint_ge [of s] sint_lt [of s] by simp_all
  then have "- 32768 \<le> real_of_int (sint s)" and "real_of_int (sint s) < 32768"
    by linarith+
  then show ?thesis
    unfolding normalizeSample_def by linarith
qed

lemma handlePlayAudio_range:
  "handlePlayAudio audioInfo audioContext = Some (Inr channelData) \<Longrightarrow>
     \<forall>x \<in> set channelData. - 1 \<le> x \<and> x < 1"
  by (auto simp add: handlePlayAudio_def normalizeSample_bounds
      split: option.splits if_splits sum.splits)

text \<open>
  Playing what the encoder wrote: the channel data is the normalized buffer, except
  that an empty buffer is rejected when the playback buffer is allocated.
\<close>

lemma handlePlayAudio_encoded:
  assumes "pcmToWavBlob P R C = Inr wav"
  shows "handlePlayAudio (Some wav) True =
           Some (if P = [] then Inl JsNotSupportedError else Inr (map normalizeSample P))"
proof -
  from assms have wav: "wav = wavHeader (length P) R C @ concat (map bytes_of_int16 P)"
    by (simp add: pcmToWavBlob_def split: if_splits)
  then have "drop 44 wav = concat (map bytes_of_int16 P)"
    by (simp add: length_wavHeader)
  then show ?thesis
    by (simp add: handlePlayAudio_def decodeWav_def new_Int16Array_def length_encoding
        int16_view_encoding)
qed

text \<open>
  Claim C3.  The sample with integer value \<open>k\<close>, for every \<open>k\<close> from \<open>-32768\<close> to
  \<open>32767\<close>, is normalized to \<open>k / 32768\<close>, a value in \<open>[-1, 1)\<close>; the sample
  \<open>-32768\<close> maps to exactly \<open>-1\<close>, and \<open>32767\<close> maps to \<open>32767 / 32768\<close>, which is
  \<open>0.99997\<close> to five places.
\<close>

theorem normalizeSample_range:
  "(- 32768 \<le> k \<and> k \<le> 32767 \<longrightarrow>
      normalizeSample (word_of_int k) = real_of_int k / 32768
      \<and> - 1 \<le> normalizeSample (word_of_int k) \<and> normalizeSample (word_of_int k) < 1)
   \<and> normalizeSample (- 32768) = - 1
   \<and> normalizeSample 32767 = 32767 / 32768
   \<and> \<bar>normalizeSample 32767 - 0.99997\<bar> < 0.00001"
  by (simp add: normalizeSample_def sint_word_of_int16)

theorem normalizeSample_range_witness:
  "- 32768 \<le> (- 16384 :: int) \<and> (- 16384 :: int) \<le> 32767
   \<and> normalizeSample (word_of_int (- 16384)) = real_of_int (- 16384) / 32768
   \<and> - 1 \<le> normalizeSample (word_of_int (- 16384)) \<and> normalizeSample (word_of_int (- 16384)) < 1"
  using normalizeSample_range [of "- 16384"] by simp

section \<open>Speech generation\<close>

lemma generateSpeech_calls: "calls (snd (generateSpeech ai text w)) = Suc (calls w)"
  by (simp add: generateSpeech_def generateContent_def console_error_def
      split: sum.splits option.splits)

lemma base64Audio_of_absent:
  "candidates r = None \<or> candidates r = Some [] \<Longrightarrow> base64Audio_of r = None"
  "candidates r = Some (c # cs) \<Longrightarrow> content c = None \<Longrightarrow> base64Audio_of r = None"
  "candidates r = Some (c # cs) \<Longrightarrow> content c = Some ct \<Longrightarrow>
     parts ct = None \<or> parts ct = Some [] \<Longrightarrow> base64Audio_of r = None"
  "candidates r = Some (c # cs) \<Longrightarrow> content c = Some ct \<Longrightarrow> parts ct = Some (p # ps) \<Longrightarrow>
     inlineData p = None \<Longrightarrow> base64Audio_of r = None"
  by (auto simp add: base64Audio_of_def)

text \<open>
  Claim C4, as stated: a failure of the remote call reaches the caller unchanged.  It
  does not: the rejection \<open>ServiceError "503"\<close> leaves \<open>generateSpeech\<close> as a different
  error.
\<close>

theorem generateSpeech_replaces_error:
  "fst (generateSpeech failing_service (js ''zdravo'') world0)
     \<noteq> Inl (ServiceError (js ''503''))"
  by (simp add: generateSpeech_def generateContent_def failing_service_def)

text \<open>
  Claim C4, amended.  When the remote call fails, \<open>generateSpeech\<close> prints the error
  of the service to the console and throws its own fixed error in its place, the same
  for every failure; the call was made exactly once, so it is never retried.
\<close>

theorem generateSpeech_failure:
  "ai (SpeechRequest text) (calls w) = Inl e \<Longrightarrow>
     generateSpeech ai text w =
       (Inl SpeechFailed, w\<lparr>calls := Suc (calls w), console := console w @ [e]\<rparr>)"
  by (simp add: generateSpeech_def generateContent_def console_error_def)

theorem generateSpeech_failure_witness:
  "failing_service (SpeechRequest (js ''zdravo'')) (calls world0)
     = Inl (ServiceError (js ''503''))
   \<and> generateSpeech failing_service (js ''zdravo'') world0 =
       (Inl SpeechFailed,
        world0\<lparr>calls := Suc (calls world0),
               console := console world0 @ [ServiceError (js ''503'')]\<rparr>)"
  using generateSpeech_failure
          [of failing_service "js ''zdravo''" world0 "ServiceError (js ''503'')"]
  by (simp add: failing_service_def)

text \<open>
  Claim C8.  When the response of the text-to-speech call has no inline audio data,
  \<open>generateSpeech\<close> returns no value: it throws its error (after printing that no
  audio was received).  Whenever it does return, the value is the non-empty payload
  found in the response.
\<close>

theorem generateSpeech_no_audio:
  "(ai (SpeechRequest text) (calls w) = Inr response \<and> base64Audio_of response = None \<longrightarrow>
      generateSpeech ai text w =
        (Inl SpeechFailed, w\<lparr>calls := Suc (calls w), console := console w @ [NoAudioContent]\<rparr>))
   \<and> (fst (generateSpeech ai text w) = Inr base64Audio \<longrightarrow>
        base64Audio \<noteq> [] \<and>
        (\<exists>response. ai (SpeechRequest text) (calls w) = Inr response
           \<and> base64Audio_of response = Some base64Audio))"
  by (auto simp add: generateSpeech_def generateContent_def console_error_def
      split: sum.splits option.splits if_splits)

theorem generateSpeech_no_audio_witness:
  "(silent_service (SpeechRequest (js ''zdravo'')) (calls world0)
      = Inr \<lparr> response_text = None, candidates = Some [] \<rparr>
    \<and> base64Audio_of \<lparr> response_text = None, candidates = Some [] \<rparr> = None
    \<and> generateSpeech silent_service (js ''zdravo'') world0 =
        (Inl SpeechFailed,
         world0\<lparr>calls := Suc (calls world0), console := console world0 @ [NoAudioContent]\<rparr>))
   \<and> (fst (generateSpeech speaking_service (js ''zdravo'') world0) = Inr (js ''AQACAA=='')
      \<and> js ''AQACAA=='' \<noteq> [])"
  using generateSpeech_no_audio
          [of silent_service "js ''zdravo''" world0
              "\<lparr> response_text = None, candidates = Some [] \<rparr>"]
        generateSpeech_no_audio
          [of speaking_service "js ''zdravo''" world0 _ "js ''AQACAA==''"]
  by (simp add: silent_service_def speaking_service_def base64Audio_of_def
      generateSpeech_def generateContent_def js_def)

section \<open>Transcription\<close>

lemma trim_decompose:
  "\<exists>pre post. t = pre @ trim t @ post
     \<and> (\<forall>c \<in> set pre. isWhiteSpace c) \<and> (\<forall>c \<in> set post. isWhiteSpace c)"
proof -
  let ?a = "dropWhile isWhiteSpace t"
  let ?r = "rev ?a"
  have 1: "t = takeWhile isWhiteSpace t @ ?a"
    by simp
  have "?r = takeWhile isWhiteSpace ?r @ dropWhile isWhiteSpace ?r"
    by simp
  then have "rev ?r = rev (dropWhile isWhiteSpace ?r) @ rev (takeWhile isWhiteSpace ?r)"
    by (metis rev_append)
  then have 2: "?a = trim t @ rev (takeWhile isWhiteSpace ?r)"
    by (simp add: trim_def)
  have 3: "\<forall>c \<in> set (takeWhile isWhiteSpace t). isWhiteSpace c"
    by (auto dest: set_takeWhileD)
  have 4: "\<forall>c \<in> set (rev (takeWhile isWhiteSpace ?r)). isWhiteSpace c"
    by (auto dest: set_takeWhileD)
  from 1 2 have "t = takeWhile isWhiteSpace t @ trim t @ rev (takeWhile isWhiteSpace ?r)"
    by simp
  with 3 4 show ?thesis
    by blast
qed

lemma trim_ends:
  "trim t = [] \<or> (\<not> isWhiteSpace (hd (trim t)) \<and> \<not> isWhiteSpace (last (trim t)))"
proof (cases "trim t = []")
  case True
  then show ?thesis
    by simp
next
  case False
  let ?a = "dropWhile isWhiteSpace t"
  let ?b = "dropWhile isWhiteSpace (rev ?a)"
  from False have b: "?b \<noteq> []"
    by (simp add: trim_def)
  then have "\<not> isWhiteSpace (hd ?b)"
    by (simp add: hd_dropWhile)
  then have last: "\<not> isWhiteSpace (last (trim t))"
    using b by (simp add: trim_def last_rev)
  from b have a: "?a \<noteq> []"
    by (metis dropWhile.simps(1) rev.simps(1))
  then have ha: "\<not> isWhiteSpace (hd ?a)"
    by (simp add: hd_dropWhile)
  have "rev ?a = takeWhile isWhiteSpace (rev ?a) @ ?b"
    by simp
  then have "?a = rev ?b @ rev (takeWhile isWhiteSpace (rev ?a))"
    by (metis rev_append rev_rev_ident)
  then have "hd ?a = hd (rev ?b)"
    using b by (metis hd_append2 rev_is_Nil_conv)
  with ha have "\<not> isWhiteSpace (hd (trim t))"
    by (simp add: trim_def)
  with last show ?thesis
    by simp
qed

text \<open>
  Claim C10.  When \<open>transcribeAudio\<close> returns a string, the service answered with a
  text, the string is that text without a prefix and a suffix made of white space only,
  and the string neither starts nor ends with white space.
\<close>

theorem transcribeAudio_trimmed:
  "fst (transcribeAudio ai audioBase64 mimeType w) = Inr s \<Longrightarrow>
     (\<exists>response t pre post.
        ai (TranscribeRequest audioBase64 mimeType) (calls w) = Inr response
        \<and> response_text response = Some t
        \<and> t = pre @ s @ post
        \<and> (\<forall>c \<in> set pre. isWhiteSpace c) \<and> (\<forall>c \<in> set post. isWhiteSpace c))
     \<and> (s = [] \<or> (\<not> isWhiteSpace (hd s) \<and> \<not> isWhiteSpace (last s)))"
proof -
  assume "fst (transcribeAudio ai audioBase64 mimeType w) = Inr s"
  then obtain response t
    where r: "ai (TranscribeRequest audioBase64 mimeType) (calls w) = Inr response"
      and t: "response_text response = Some t"
      and s: "s = trim t"
    by (auto simp add: transcribeAudio_def generateContent_def
        split: sum.splits option.splits)
  from trim_decompose [of t] trim_ends [of t] r t s show ?thesis
    by blast
qed

theorem transcribeAudio_trimmed_witness:
  "fst (transcribeAudio transcribing_service (js ''AAAA'') (js ''audio/webm'') world0)
     = Inr (js ''Dobar dan.'')
   \<and> (js ''Dobar dan.'' = []
      \<or> (\<not> isWhiteSpace (hd (js ''Dobar dan.'')) \<and> \<not> isWhiteSpace (last (js ''Dobar dan.''))))"
proof -
  have h: "fst (transcribeAudio transcribing_service (js ''AAAA'') (js ''audio/webm'') world0)
             = Inr (js ''Dobar dan.'')"
    by (simp add: transcribeAudio_def generateContent_def transcribing_service_def trim_def
        js_def isWhiteSpace_def)
  from transcribeAudio_trimmed [OF h] h show ?thesis
    by blast
qed

section \<open>Translation\<close>

lemma map_throwing_Inr:
  "\<forall>x \<in> set xs. \<exists>y. f x = Inr y \<Longrightarrow>
     \<exists>ys. map_throwing f xs = Inr ys \<and> length ys = length xs
        \<and> (\<forall>i < length xs. f (xs ! i) = Inr (ys ! i))"
proof (induction xs)
  case Nil
  then show ?case
    by simp
next
  case (Cons x xs)
  then obtain y where y: "f x = Inr y"
    by auto
  from Cons obtain ys where ys: "map_throwing f xs = Inr ys" "length ys = length xs"
    "\<forall>i < length xs. f (xs ! i) = Inr (ys ! i)"
    by auto
  have "\<forall>i < length (x # xs). f ((x # xs) ! i) = Inr ((y # ys) ! i)"
    using y ys(3) by (auto simp add: nth_Cons split: nat.splits)
  with y ys show ?case
    by simp
qed

lemma get_property_not_null: "item \<noteq> JNull \<Longrightarrow> \<exists>v. get_property item k = Inr v"
  by (cases item) simp_all

lemma strict_equals_iff: "strict_equals s v \<longleftrightarrow> v = Some (JStr s)"
  by (cases "(s, v)" rule: strict_equals.cases) auto

lemma translation_of_not_null:
  assumes "item \<noteq> JNull"
  shows "\<exists>tr. translation_of targetLanguages item = Inr tr
     \<and> get_property item (js ''languageCode'') = Inr (languageCode tr)
     \<and> languageName tr =
         (case find (\<lambda>l. languageCode tr = Some (JStr (code l))) targetLanguages of
            Some l \<Rightarrow> Some (JStr (name l)) | None \<Rightarrow> languageCode tr)"
proof -
  from assms obtain lc tt where "get_property item (js ''languageCode'') = Inr lc"
    "get_property item (js ''translatedText'') = Inr tt"
    using get_property_not_null by blast
  then show ?thesis
    by (simp add: translation_of_def strict_equals_iff split: option.split)
qed

lemma languageName_cases:
  assumes "n = (case find (\<lambda>l. lc = Some (JStr (code l))) (ls :: Language list) of
            Some l \<Rightarrow> Some (JStr (name l)) | None \<Rightarrow> lc)"
  shows "((\<exists>l \<in> set ls. lc = Some (JStr (code l))) \<longrightarrow>
           (\<exists>j < length ls. lc = Some (JStr (code (ls ! j)))
              \<and> (\<forall>k < j. lc \<noteq> Some (JStr (code (ls ! k))))
              \<and> n = Some (JStr (name (ls ! j)))))
       \<and> ((\<forall>l \<in> set ls. lc \<noteq> Some (JStr (code l))) \<longrightarrow> n = lc)"
proof (cases "find (\<lambda>l. lc = Some (JStr (code l))) ls")
  case None
  then have "\<not> (\<exists>l \<in> set ls. lc = Some (JStr (code l)))"
    by (simp add: find_None_iff)
  moreover have "n = lc"
    using assms None by simp
  ultimately show ?thesis
    by blast
next
  case (Some l)
  then obtain j where "j < length ls" "lc = Some (JStr (code (ls ! j)))" "l = ls ! j"
     "\<forall>k < j. lc \<noteq> Some (JStr (code (ls ! k)))"
    by (auto simp add: find_Some_iff)
  then show ?thesis
    using assms Some by auto
qed

text \<open>
  Claim C9.  When the service answers with a text that parses to an array with no
  \<open>null\<close> item, \<open>translateText\<close> returns one result for each item, whatever the
  language codes are.  The \<open>languageCode\<close> of a result is the one read from the item.
  When an entry of \<open>targetLanguages\<close> has this code, \<open>languageName\<close> is the name of
  the first such entry; when none has, \<open>languageName\<close> is the \<open>languageCode\<close>
  itself.
\<close>

theorem translateText_languageName:
  assumes "ai (TranslateRequest (languageList_of targetLanguages) text) (calls w) = Inr response"
    and "response_text response = Some t"
    and "parse t = Inr (JArr items)"
    and "JNull \<notin> set items"
  shows "\<exists>ts. fst (translateText parse ai text targetLanguages w) = Inr ts
     \<and> length ts = length items
     \<and> (\<forall>i < length items.
          get_property (items ! i) (js ''languageCode'') = Inr (languageCode (ts ! i))
          \<and> ((\<exists>l \<in> set targetLanguages. languageCode (ts ! i) = Some (JStr (code l))) \<longrightarrow>
               (\<exists>j < length targetLanguages.
                  languageCode (ts ! i) = Some (JStr (code (targetLanguages ! j)))
                  \<and> (\<forall>k < j. languageCode (ts ! i) \<noteq> Some (JStr (code (targetLanguages ! k))))
                  \<and> languageName (ts ! i) = Some (JStr (name (targetLanguages ! j)))))
          \<and> ((\<forall>l \<in> set targetLanguages. languageCode (ts ! i) \<noteq> Some (JStr (code l))) \<longrightarrow>
               languageName (ts ! i) = languageCode (ts ! i)))"
proof -
  let ?f = "translation_of targetLanguages"
  have "\<forall>x \<in> set items. \<exists>y. ?f x = Inr y"
    using assms(4) translation_of_not_null by metis
  from map_throwing_Inr [OF this] obtain ts where ts: "map_throwing ?f items = Inr ts"
    "length ts = length items" "\<forall>i < length items. ?f (items ! i) = Inr (ts ! i)"
    by blast
  have res: "fst (translateText parse ai text targetLanguages w) = Inr ts"
    using assms(1-3) ts(1)
    by (simp add: translateText_def generateContent_def JSON_parse_def)
  have "get_property (items ! i) (js ''languageCode'') = Inr (languageCode (ts ! i))
          \<and> ((\<exists>l \<in> set targetLanguages. languageCode (ts ! i) = Some (JStr (code l))) \<longrightarrow>
               (\<exists>j < length targetLanguages.
                  languageCode (ts ! i) = Some (JStr (code (targetLanguages ! j)))
                  \<and> (\<forall>k < j. languageCode (ts ! i) \<noteq> Some (JStr (code (targetLanguages ! k))))
                  \<and> languageName (ts ! i) = Some (JStr (name (targetLanguages ! j)))))
          \<and> ((\<forall>l \<in> set targetLanguages. languageCode (ts ! i) \<noteq> Some (JStr (code l))) \<longrightarrow>
               languageName (ts ! i) = languageCode (ts ! i))"
    if i: "i < length items" for i
  proof -
    from i assms(4) have "items ! i \<noteq> JNull"
      by (metis nth_mem)
    from translation_of_not_null [OF this, of targetLanguages] ts(3) i
    have gp: "get_property (items ! i) (js ''languageCode'') = Inr (languageCode (ts ! i))"
      and ln: "languageName (ts ! i) =
         (case find (\<lambda>l. languageCode (ts ! i) = Some (JStr (code l))) targetLanguages of
            Some l \<Rightarrow> Some (JStr (name l)) | None \<Rightarrow> languageCode (ts ! i))"
      by auto
    from gp languageName_cases [OF ln] show ?thesis
      by blast
  qed
  with res ts(2) show ?thesis
    by blast
qed

theorem translateText_languageName_witness:
  "translating_service (TranslateRequest (languageList_of [english]) (js ''Zdravo''))
       (calls world0)
     = Inr \<lparr> response_text = Some (js ''[en, de]''), candidates = None \<rparr>
   \<and> response_text \<lparr> response_text = Some (js ''[en, de]''), candidates = None \<rparr>
       = Some (js ''[en, de]'')
   \<and> parse0 (js ''[en, de]'') = Inr (JArr items0)
   \<and> JNull \<notin> set items0
   \<and> (\<exists>ts. fst (translateText parse0 translating_service (js ''Zdravo'') [english] world0)
              = Inr ts
         \<and> length ts = length items0)"
proof -
  have 1: "translating_service (TranslateRequest (languageList_of [english]) (js ''Zdravo''))
             (calls world0)
     = Inr \<lparr> response_text = Some (js ''[en, de]''), candidates = None \<rparr>"
    by (simp add: translating_service_def)
  have 2: "response_text \<lparr> response_text = Some (js ''[en, de]''), candidates = None \<rparr>
     = Some (js ''[en, de]'')"
    by simp
  have 3: "parse0 (js ''[en, de]'') = Inr (JArr items0)"
    by (simp add: parse0_def)
  have 4: "JNull \<notin> set items0"
    by (simp add: items0_def)
  from translateText_languageName
         [of translating_service "[english]" "js ''Zdravo''" world0
            "\<lparr> response_text = Some (js ''[en, de]''), candidates = None \<rparr>"
            "js ''[en, de]''" parse0 items0, OF 1 2 3 4] 1 2 3 4
  show ?thesis
    by blast
qed

text \<open>
  The example in full: English is a target language and gets its name; German is not,
  and its code stands in for the name.
\<close>

lemma translateText_example:
  "fst (translateText parse0 translating_service (js ''Zdravo'') [english] world0) =
     Inr [\<lparr> languageCode = Some (JStr (js ''en'')), languageName = Some (JStr (js ''Engleski'')),
             translation_text = Some (JStr (js ''Hello'')) \<rparr>,
          \<lparr> languageCode = Some (JStr (js ''de'')), languageName = Some (JStr (js ''de'')),
             translation_text = Some (JStr (js ''Hallo'')) \<rparr>]"
  by (simp add: translateText_def generateContent_def translating_service_def JSON_parse_def
      parse0_def items0_def translation_of_def english_def js_def)

end
